theory Spec2Isabelle
  imports
    Complex_Main
    "HOL-Library.Sublist"
    "HOL-Library.Char_ord"
    "HOL-Library.List_Lexorder"
    "HOL-Library.Multiset"
    "HOL-Library.Log_Nat"
begin

section \<open>Texts\<close>

text \<open>
  A Python \<^verbatim>\<open>str\<close> is a sequence of code points. A text is modelled as a
  \<^typ>\<open>string\<close> whose characters are the code points below 256 (Latin-1), with
  Python's own classification of that range: \<^verbatim>\<open>str.isspace\<close>,
  \<^verbatim>\<open>str.lower\<close>, and the regular-expression classes \<^verbatim>\<open>\d\<close> and
  \<^verbatim>\<open>\s\<close>.
\<close>

definition code_point :: "char \<Rightarrow> nat" where
  "code_point c = of_char c"

text \<open>\<^verbatim>\<open>str.isspace\<close> (and \<^verbatim>\<open>\s\<close> of a str pattern) on the code points below 256.\<close>

definition py_isspace :: "char \<Rightarrow> bool" where
  "py_isspace c = (code_point c \<in> {9, 10, 11, 12, 13, 28, 29, 30, 31, 32, 133, 160})"

text \<open>\<^verbatim>\<open>\d\<close> of a str pattern: the decimal digits; below 256 these are 0 to 9.\<close>

definition py_isdigit :: "char \<Rightarrow> bool" where
  "py_isdigit c = (48 \<le> code_point c \<and> code_point c \<le> 57)"

text \<open>\<^verbatim>\<open>str.lower\<close>: A-Z, and the Latin-1 capitals 0xC0-0xDE except the sign 0xD7.\<close>

definition lower_char :: "char \<Rightarrow> char" where
  "lower_char c =
     (let n = code_point c
      in if (65 \<le> n \<and> n \<le> 90) \<or> (192 \<le> n \<and> n \<le> 222 \<and> n \<noteq> 215)
         then char_of (n + 32) else c)"

definition lower :: "string \<Rightarrow> string" where
  "lower text = map lower_char text"

text \<open>\<^verbatim>\<open>str.strip()\<close>: leading and trailing whitespace removed.\<close>

definition strip :: "string \<Rightarrow> string" where
  "strip text = rev (dropWhile py_isspace (rev (dropWhile py_isspace text)))"

section \<open>Floats and exceptions\<close>

text \<open>
  A Python \<^verbatim>\<open>float\<close> is an IEEE 754 binary64 number: a finite value, an
  infinity or a NaN. The finite values are the reals \<open>m \<times> 2\<^sup>q\<close> with
  \<open>\<bar>m\<bar> < 2\<^sup>5\<^sup>3\<close> and \<open>-1074 \<le> q \<le> 971\<close>; the two zeros are not told apart,
  nothing below observes the sign of a zero.
\<close>

datatype pyfloat = Fin real | PInf | NInf | NaN

text \<open>To the nearest integer, a tie to the even neighbour.\<close>

definition round_half_even :: "real \<Rightarrow> int" where
  "round_half_even y =
     (let f = \<lfloor>y\<rfloor>; d = y - of_int f
      in if d < 1 / 2 then f else if 1 / 2 < d then f + 1
         else if even f then f else f + 1)"

text \<open>The exponent \<open>e\<close> with \<open>2\<^sup>e \<le> \<bar>x\<bar> < 2\<^sup>e\<^sup>+\<^sup>1\<close>, for \<open>x\<close> other than 0.\<close>

definition binade :: "real \<Rightarrow> int" where
  "binade x =
     (let a = \<bar>x\<bar>
      in if 1 \<le> a then bitlen \<lfloor>a\<rfloor> - 1 else - bitlen (\<lceil>1 / a\<rceil> - 1))"

text \<open>
  The binary64 number nearest to a real, a tie to the even mantissa: the real is
  rounded to a multiple of \<open>2\<^sup>q\<close>, where \<open>q\<close> is 52 below its exponent and at
  least \<open>-1074\<close> (the subnormal range); what reaches \<open>2\<^sup>1\<^sup>0\<^sup>2\<^sup>4\<close> is an infinity.
  Every arithmetic operation and every conversion of a literal rounds its exact result
  this way.
\<close>

definition round_to_double :: "real \<Rightarrow> pyfloat" where
  "round_to_double x =
     (let e = binade x
      in if 1023 < e then (if 0 < x then PInf else NInf)
         else (let q = max (e - 52) (- 1074);
                   m = round_half_even (x / 2 powi q)
               in if 2 ^ 53 \<le> \<bar>m\<bar> \<and> e = 1023 then (if 0 < x then PInf else NInf)
                  else Fin (of_int m * 2 powi q)))"

text \<open>The comparisons \<^verbatim>\<open><\<close> and \<^verbatim>\<open><=\<close>: false as soon as a NaN is compared.\<close>

fun flt :: "pyfloat \<Rightarrow> pyfloat \<Rightarrow> bool" where
  "flt (Fin a) (Fin b) = (a < b)"
| "flt NaN _ = False"
| "flt _ NaN = False"
| "flt _ NInf = False"
| "flt NInf _ = True"
| "flt PInf _ = False"
| "flt _ PInf = True"

fun fle :: "pyfloat \<Rightarrow> pyfloat \<Rightarrow> bool" where
  "fle (Fin a) (Fin b) = (a \<le> b)"
| "fle NaN _ = False"
| "fle _ NaN = False"
| "fle NInf _ = True"
| "fle _ PInf = True"
| "fle _ NInf = False"
| "fle PInf _ = False"

text \<open>
  The built-ins \<^verbatim>\<open>min(a, b)\<close> and \<^verbatim>\<open>max(a, b)\<close> keep the first argument
  unless the second is strictly smaller, respectively larger; so a NaN in the first
  place stays, a NaN in the second place is dropped.
\<close>

definition py_min :: "pyfloat \<Rightarrow> pyfloat \<Rightarrow> pyfloat" where
  "py_min a b = (if flt b a then b else a)"

definition py_max :: "pyfloat \<Rightarrow> pyfloat \<Rightarrow> pyfloat" where
  "py_max a b = (if flt a b then b else a)"

fun fmul :: "pyfloat \<Rightarrow> pyfloat \<Rightarrow> pyfloat" where
  "fmul (Fin a) (Fin b) = round_to_double (a * b)"
| "fmul NaN _ = NaN"
| "fmul _ NaN = NaN"
| "fmul (Fin a) PInf = (if a = 0 then NaN else if 0 < a then PInf else NInf)"
| "fmul (Fin a) NInf = (if a = 0 then NaN else if 0 < a then NInf else PInf)"
| "fmul PInf (Fin b) = (if b = 0 then NaN else if 0 < b then PInf else NInf)"
| "fmul NInf (Fin b) = (if b = 0 then NaN else if 0 < b then NInf else PInf)"
| "fmul PInf PInf = PInf"
| "fmul NInf NInf = PInf"
| "fmul PInf NInf = NInf"
| "fmul NInf PInf = NInf"

fun fadd :: "pyfloat \<Rightarrow> pyfloat \<Rightarrow> pyfloat" where
  "fadd (Fin a) (Fin b) = round_to_double (a + b)"
| "fadd NaN _ = NaN"
| "fadd _ NaN = NaN"
| "fadd PInf NInf = NaN"
| "fadd NInf PInf = NaN"
| "fadd PInf _ = PInf"
| "fadd NInf _ = NInf"
| "fadd _ PInf = PInf"
| "fadd _ NInf = NInf"

text \<open>
  The exceptions of the core. A \<^verbatim>\<open>ValueError\<close> carries the reason that stands
  for its message.
\<close>

datatype reason =
    SourceEmpty
  | TargetEmpty
  | SourceNot2D "nat list"
  | TargetNot2D "nat list"
  | DimensionMismatch nat nat
  | ZeroSizeReduction
  | NotFinite

datatype error = ValueError reason | ZeroDivisionError

text \<open>The operator \<^verbatim>\<open>/\<close> on floats: it raises when the divisor is zero.\<close>

fun py_truediv :: "pyfloat \<Rightarrow> pyfloat \<Rightarrow> error + pyfloat" where
  "py_truediv (Fin a) (Fin b) =
     (if b = 0 then Inl ZeroDivisionError else Inr (round_to_double (a / b)))"
| "py_truediv NaN (Fin b) = (if b = 0 then Inl ZeroDivisionError else Inr NaN)"
| "py_truediv PInf (Fin b) =
     (if b = 0 then Inl ZeroDivisionError else Inr (if 0 < b then PInf else NInf))"
| "py_truediv NInf (Fin b) =
     (if b = 0 then Inl ZeroDivisionError else Inr (if 0 < b then NInf else PInf))"
| "py_truediv _ NaN = Inr NaN"
| "py_truediv (Fin a) _ = Inr (Fin 0)"
| "py_truediv _ _ = Inr NaN"

text \<open>
  \<^verbatim>\<open>round(x, ndigits)\<close>: the exact value of the float is rounded to the decimal
  with that many fractional digits, a tie to the even digit, and the decimal is
  converted back to a float; an infinity or a NaN is returned as it is.
\<close>

definition py_round :: "pyfloat \<Rightarrow> nat \<Rightarrow> pyfloat" where
  "py_round x ndigits =
     (case x of
        Fin v \<Rightarrow> round_to_double (of_int (round_half_even (v * 10 ^ ndigits)) / 10 ^ ndigits)
      | _ \<Rightarrow> x)"

section \<open>Configuration (constants.py)\<close>

text \<open>The literals \<^verbatim>\<open>0.6\<close>, \<^verbatim>\<open>0.3\<close> and \<^verbatim>\<open>0.1\<close> denote the nearest floats.\<close>

definition SEMANTIC_SIMILARITY_WEIGHT :: pyfloat where
  "SEMANTIC_SIMILARITY_WEIGHT = round_to_double 0.6"

definition SKILL_MATCH_WEIGHT :: pyfloat where
  "SKILL_MATCH_WEIGHT = round_to_double 0.3"

definition EXPERIENCE_MATCH_WEIGHT :: pyfloat where
  "EXPERIENCE_MATCH_WEIGHT = round_to_double 0.1"

definition RECOGNIZED_SKILLS :: "string set" where
  "RECOGNIZED_SKILLS = set [
     ''python'', ''java'', ''c++'', ''c'', ''javascript'', ''typescript'',
     ''go'', ''golang'', ''rust'', ''scala'', ''kotlin'', ''bash'',
     ''sql'', ''r'', ''matlab'',
     ''machine learning'', ''deep learning'', ''artificial intelligence'',
     ''supervised learning'', ''unsupervised learning'',
     ''reinforcement learning'',
     ''nlp'', ''natural language processing'',
     ''computer vision'', ''cv'',
     ''speech recognition'', ''text classification'',
     ''information retrieval'', ''recommendation systems'',
     ''pytorch'', ''tensorflow'', ''keras'', ''scikit-learn'',
     ''xgboost'', ''lightgbm'', ''catboost'',
     ''huggingface'', ''transformers'',
     ''opencv'', ''spacy'', ''nltk'',
     ''pandas'', ''numpy'', ''scipy'',
     ''data analysis'', ''data science'', ''data engineering'',
     ''feature engineering'', ''data preprocessing'',
     ''data visualization'',
     ''power bi'', ''tableau'',
     ''fastapi'', ''django'', ''flask'',
     ''node.js'', ''express'',
     ''rest api'', ''graphql'',
     ''microservices'',
     ''mysql'', ''postgresql'', ''sqlite'',
     ''mongodb'', ''redis'', ''elasticsearch'',
     ''cassandra'', ''dynamodb'',
     ''docker'', ''kubernetes'', ''helm'',
     ''ci/cd'', ''github actions'',
     ''mlops'', ''model deployment'',
     ''model monitoring'',
     ''aws'', ''gcp'', ''azure'',
     ''ec2'', ''s3'', ''lambda'',
     ''cloud functions'',
     ''data structures'', ''algorithms'',
     ''operating systems'', ''computer networks'',
     ''dbms'', ''system design'',
     ''distributed systems'',
     ''parallel computing'',
     ''object oriented programming'', ''oop'',
     ''design patterns'', ''clean architecture'',
     ''unit testing'', ''integration testing'',
     ''debugging'', ''performance optimization'',
     ''git'', ''github'', ''gitlab'',
     ''linux'', ''unix'',
     ''jira'', ''confluence'',
     ''docker compose'',
     ''transformer models'', ''llms'',
     ''attention mechanism'',
     ''bert'', ''gpt'',
     ''time series forecasting'',
     ''anomaly detection'']"

section \<open>Skill extraction and matching (skill\_extractor.py)\<close>

text \<open>
  \<^verbatim>\<open>re.sub(r"[^a-z0-9+ ]", " ", text.lower())\<close>: every character outside the
  class becomes a space.
\<close>

definition keep_char :: "char \<Rightarrow> bool" where
  "keep_char c =
     ((CHR ''a'' \<le> c \<and> c \<le> CHR ''z'') \<or> (CHR ''0'' \<le> c \<and> c \<le> CHR ''9'')
      \<or> c = CHR ''+'' \<or> c = CHR '' '')"

definition normalize_text :: "string \<Rightarrow> string" where
  "normalize_text text =
     (let lowercased = lower text
      in map (\<lambda>c. if keep_char c then c else CHR '' '') lowercased)"

text \<open>Python's \<^verbatim>\<open>skill in normalized_text\<close> is the contiguous-substring test.\<close>

definition extract_skills :: "string \<Rightarrow> string set" where
  "extract_skills text =
     (if text = [] \<or> strip text = [] then {}
      else (let normalized_text = normalize_text text
            in Set.filter (\<lambda>skill. sublist skill normalized_text) RECOGNIZED_SKILLS))"

definition match_skills :: "string \<Rightarrow> string \<Rightarrow> string list \<times> string list \<times> real" where
  "match_skills resume_text job_description_text =
     (let resume_skills = extract_skills resume_text;
          jd_required_skills = extract_skills job_description_text
      in if jd_required_skills = {} then ([], [], 1)
         else (let matched_skills = resume_skills \<inter> jd_required_skills;
                   missing_skills = jd_required_skills - resume_skills
               in (sorted_list_of_set matched_skills,
                   sorted_list_of_set missing_skills,
                   real (card matched_skills) / real (card jd_required_skills))))"

section \<open>Experience and final score (scorer.py)\<close>

text \<open>
  \<^verbatim>\<open>float(years)\<close> on a captured decimal literal (digits, optionally a dot and
  more digits; only such literals are captured by the pattern below): the float
  nearest to the decimal's exact value.
\<close>

definition digits_value :: "string \<Rightarrow> nat" where
  "digits_value ds = foldl (\<lambda>acc c. 10 * acc + (code_point c - 48)) 0 ds"

definition decimal_value :: "string \<Rightarrow> real" where
  "decimal_value literal =
     (let int_part = takeWhile (\<lambda>c. c \<noteq> CHR ''.'') literal;
          frac_part = drop 1 (dropWhile (\<lambda>c. c \<noteq> CHR ''.'') literal)
      in real (digits_value int_part) + real (digits_value frac_part) / 10 ^ length frac_part)"

definition py_float :: "string \<Rightarrow> pyfloat" where
  "py_float literal = round_to_double (decimal_value literal)"

text \<open>
  One attempt of the pattern \<^verbatim>\<open>(\d+(?:\.\d+)?)\s*\+?\s*years?\<close> at the start
  of \<open>s\<close>: the captured group and the length of the whole match. Every quantifier
  is greedy, and no shorter choice can succeed: after a shortened digit run the next
  character is a digit, after a skipped fraction it is a dot, after shortened
  whitespace it is whitespace that the second \<^verbatim>\<open>\s*\<close> takes, and a skipped
  plus or \<open>s\<close> is matched by nothing that follows.
\<close>

definition match_years_at :: "string \<Rightarrow> (string \<times> nat) option" where
  "match_years_at s =
     (let int_part = takeWhile py_isdigit s;
          r1 = dropWhile py_isdigit s
      in if int_part = [] then None
         else
          (let frac = (case r1 of [] \<Rightarrow> []
                       | c # r \<Rightarrow> if c = CHR ''.'' \<and> takeWhile py_isdigit r \<noteq> []
                                then c # takeWhile py_isdigit r else []);
               r2 = drop (length frac) r1;
               r3 = dropWhile py_isspace r2;
               r4 = (case r3 of [] \<Rightarrow> [] | c # r \<Rightarrow> if c = CHR ''+'' then r else r3);
               r5 = dropWhile py_isspace r4
           in if take 4 r5 = ''year''
              then (let r6 = drop 4 r5;
                        r7 = (case r6 of [] \<Rightarrow> []
                              | c # r \<Rightarrow> if c = CHR ''s'' then r else r6)
                    in Some (int_part @ frac, length s - length r7))
              else None))"

text \<open>
  \<^verbatim>\<open>re.findall\<close>: scan from the left; after a match the scan resumes behind it
  (\<open>skip\<close> counts the characters of the last match still to pass over).
\<close>

fun findall_years :: "nat \<Rightarrow> string \<Rightarrow> string list" where
  "findall_years skip [] = []"
| "findall_years skip (c # cs) =
     (if 0 < skip then findall_years (skip - 1) cs
      else (case match_years_at (c # cs) of
              None \<Rightarrow> findall_years 0 cs
            | Some (number, len) \<Rightarrow> number # findall_years (len - 1) cs))"

text \<open>
  \<^verbatim>\<open>max\<close> of a list that is not empty: the first element is kept until a
  strictly larger one comes.
\<close>

definition py_max_list :: "pyfloat \<Rightarrow> pyfloat list \<Rightarrow> pyfloat" where
  "py_max_list first others = fold (\<lambda>item maxitem. if flt maxitem item then item else maxitem) others first"

definition extract_years_of_experience :: "string \<Rightarrow> pyfloat" where
  "extract_years_of_experience text =
     (let text_lower = lower text;
          year_mentions = findall_years 0 text_lower
      in case map py_float year_mentions of
           [] \<Rightarrow> Fin 0
         | first # others \<Rightarrow> py_max_list first others)"

definition compute_experience_score :: "string \<Rightarrow> string \<Rightarrow> error + pyfloat" where
  "compute_experience_score resume_text job_description_text =
     (let candidate_years = extract_years_of_experience resume_text;
          required_years = extract_years_of_experience job_description_text
      in if fle required_years (Fin 0) then Inr (Fin 1)
         else (case py_truediv candidate_years required_years of
                 Inl e \<Rightarrow> Inl e
               | Inr experience_ratio \<Rightarrow>
                   (let normalized_score = py_min experience_ratio (Fin 1)
                    in Inr (py_max (Fin 0) normalized_score))))"

definition compute_final_score :: "pyfloat \<Rightarrow> pyfloat \<Rightarrow> pyfloat \<Rightarrow> pyfloat" where
  "compute_final_score semantic_similarity skill_overlap experience_score =
     (let weighted_semantic = fmul SEMANTIC_SIMILARITY_WEIGHT semantic_similarity;
          weighted_skills = fmul SKILL_MATCH_WEIGHT skill_overlap;
          weighted_experience = fmul EXPERIENCE_MATCH_WEIGHT experience_score;
          raw_score = fadd (fadd weighted_semantic weighted_skills) weighted_experience;
          fit_score_percentage = fmul raw_score (Fin 100)
      in py_round fit_score_percentage 2)"





section \<open>Semantic coverage (similarity.py)\<close>

text \<open>
  A numpy array: its shape and its elements in row-major order. \<^verbatim>\<open>size\<close> is
  the product of the shape, \<^verbatim>\<open>ndim\<close> its length.
\<close>

record ndarray =
  shape :: "nat list"
  elems :: "real list"

definition size_of :: "ndarray \<Rightarrow> nat" where
  "size_of a = prod_list (shape a)"

definition ndim :: "ndarray \<Rightarrow> nat" where
  "ndim a = length (shape a)"

text \<open>The rows of a two-dimensional array.\<close>

definition rows :: "ndarray \<Rightarrow> real list list" where
  "rows a =
     (let n = shape a ! 0; d = shape a ! 1
      in map (\<lambda>i. take d (drop (i * d) (elems a))) [0..<n])"

definition validate_embeddings :: "ndarray \<Rightarrow> ndarray \<Rightarrow> error + unit" where
  "validate_embeddings source_embeddings target_embeddings =
     (if size_of source_embeddings = 0 then Inl (ValueError SourceEmpty)
      else if size_of target_embeddings = 0 then Inl (ValueError TargetEmpty)
      else if ndim source_embeddings \<noteq> 2
        then Inl (ValueError (SourceNot2D (shape source_embeddings)))
      else if ndim target_embeddings \<noteq> 2
        then Inl (ValueError (TargetNot2D (shape target_embeddings)))
      else (let source_dim = shape source_embeddings ! 1;
                target_dim = shape target_embeddings ! 1
            in if source_dim \<noteq> target_dim
               then Inl (ValueError (DimensionMismatch source_dim target_dim))
               else Inr ()))"

text \<open>
  \<^verbatim>\<open>sklearn.metrics.pairwise.cosine_similarity\<close>: both arguments are normalised
  row by row (a row of norm zero is left as it is) and multiplied.
\<close>

definition l2_norm :: "real list \<Rightarrow> real" where
  "l2_norm v = sqrt (sum_list (map (\<lambda>x. x * x) v))"

definition normalize_row :: "real list \<Rightarrow> real list" where
  "normalize_row v =
     (let n = l2_norm v; scale = (if n = 0 then 1 else n)
      in map (\<lambda>x. x / scale) v)"

definition dot :: "real list \<Rightarrow> real list \<Rightarrow> real" where
  "dot u v = sum_list (map2 (*) u v)"

definition cosine_similarity :: "ndarray \<Rightarrow> ndarray \<Rightarrow> real list list" where
  "cosine_similarity X Y =
     map (\<lambda>x. map (\<lambda>y. dot (normalize_row x) (normalize_row y)) (rows Y)) (rows X)"

text \<open>\<^verbatim>\<open>max\<close> along a row; numpy raises on a row without elements.\<close>

fun amax :: "real list \<Rightarrow> error + real" where
  "amax [] = Inl (ValueError ZeroSizeReduction)"
| "amax (x # xs) = Inr (fold max xs x)"

fun amax_rows :: "real list list \<Rightarrow> error + real list" where
  "amax_rows [] = Inr []"
| "amax_rows (r # rs) =
     (case amax r of
        Inl e \<Rightarrow> Inl e
      | Inr m \<Rightarrow> (case amax_rows rs of Inl e \<Rightarrow> Inl e | Inr ms \<Rightarrow> Inr (m # ms)))"

definition mean :: "real list \<Rightarrow> real" where
  "mean xs = sum_list xs / real (length xs)"

definition clip :: "real \<Rightarrow> real \<Rightarrow> real \<Rightarrow> real" where
  "clip x lo hi = min hi (max x lo)"

definition average_max_cosine_similarity :: "ndarray \<Rightarrow> ndarray \<Rightarrow> error + real" where
  "average_max_cosine_similarity source_embeddings target_embeddings =
     (case validate_embeddings source_embeddings target_embeddings of
        Inl e \<Rightarrow> Inl e
      | Inr _ \<Rightarrow>
          (let similarity_matrix = cosine_similarity source_embeddings target_embeddings
           in case amax_rows similarity_matrix of
                Inl e \<Rightarrow> Inl e
              | Inr max_similarities \<Rightarrow>
                  (let average_similarity = mean max_similarities
                   in Inr (clip average_similarity 0 1))))"

section \<open>Orchestration (pipeline.py)\<close>

text \<open>\<^verbatim>\<open>str.split(".")\<close>: the pieces between the separators, empty ones included.\<close>

fun split_on :: "char \<Rightarrow> string \<Rightarrow> string list" where
  "split_on sep [] = [[]]"
| "split_on sep (c # cs) =
     (if c = sep then [] # split_on sep cs
      else (case split_on sep cs of
              [] \<Rightarrow> [[c]]
            | piece # pieces \<Rightarrow> (c # piece) # pieces))"

definition replace_char :: "char \<Rightarrow> char \<Rightarrow> string \<Rightarrow> string" where
  "replace_char old new text = map (\<lambda>c. if c = old then new else c) text"

definition tokenize_into_sentences :: "string \<Rightarrow> string list" where
  "tokenize_into_sentences text =
     (if text = [] \<or> strip text = [] then [[]]
      else (let sentences =
                  map strip
                    (filter (\<lambda>s. strip s \<noteq> [])
                       (split_on (CHR ''.'') (replace_char (CHR 0x0A) (CHR '' '') text)))
            in if sentences \<noteq> [] then sentences else [text]))"

text \<open>
  Decimal rendering of a count, and the format \<^verbatim>\<open>:.2f\<close> of a float: its
  exact value rounded to two fractional digits, a tie to the even digit.
\<close>

fun str_nat :: "nat \<Rightarrow> string" where
  "str_nat n =
     (if n < 10 then [char_of (48 + n)]
      else str_nat (n div 10) @ [char_of (48 + n mod 10)])"

definition format_2f :: "pyfloat \<Rightarrow> string" where
  "format_2f x =
     (case x of
        Fin v \<Rightarrow>
          (let hundredths = nat (round_half_even (\<bar>v\<bar> * 100))
           in (if v < 0 then ''-'' else []) @ str_nat (hundredths div 100) @ ''.''
              @ str_nat (hundredths mod 100 div 10) @ str_nat (hundredths mod 10))
      | PInf \<Rightarrow> ''inf''
      | NInf \<Rightarrow> ''-inf''
      | NaN \<Rightarrow> ''nan'')"

fun join :: "string \<Rightarrow> string list \<Rightarrow> string" where
  "join sep [] = []"
| "join sep [s] = s"
| "join sep (s # t # ts) = s @ sep @ join sep (t # ts)"

definition generate_explanation ::
  "pyfloat \<Rightarrow> string list \<Rightarrow> string list \<Rightarrow> pyfloat \<Rightarrow> string" where
  "generate_explanation semantic_similarity matched_skills missing_skills experience_score =
     (let num_matched = length matched_skills;
          missing_skills_text =
            (if missing_skills \<noteq> [] then join '', '' missing_skills else ''None'')
      in ''Semantic match score is '' @ format_2f semantic_similarity @ ''. ''
         @ ''Matched '' @ str_nat num_matched @ '' required skill''
         @ (if num_matched \<noteq> 1 then ''s'' else []) @ ''. ''
         @ ''Experience alignment score is '' @ format_2f experience_score @ ''. ''
         @ ''Missing skills include: '' @ missing_skills_text @ ''.'')"

record evaluation_result =
  fit_score :: pyfloat
  semantic_similarity_score :: pyfloat
  matched_skills :: "string list"
  missing_skills :: "string list"
  experience_match_score :: pyfloat
  explanation :: string

text \<open>
  \<^verbatim>\<open>ResumeJobFitPipeline.evaluate\<close>. The embedding model is external: its
  \<^verbatim>\<open>encode\<close> is a parameter. An exception of a step leaves \<^verbatim>\<open>evaluate\<close>
  at once. The coverage value and the overlap ratio enter the scores as floats.
\<close>

definition evaluate ::
  "(string list \<Rightarrow> ndarray) \<Rightarrow> string \<Rightarrow> string \<Rightarrow> error + evaluation_result" where
  "evaluate encode resume_text job_description_text =
     (let resume_sentences = tokenize_into_sentences resume_text;
          jd_sentences = tokenize_into_sentences job_description_text;
          resume_embeddings = encode resume_sentences;
          jd_embeddings = encode jd_sentences
      in case average_max_cosine_similarity jd_embeddings resume_embeddings of
           Inl e \<Rightarrow> Inl e
         | Inr coverage \<Rightarrow>
             (case match_skills resume_text job_description_text of
                (matched, missing, overlap) \<Rightarrow>
                  (case compute_experience_score resume_text job_description_text of
                     Inl e \<Rightarrow> Inl e
                   | Inr experience_score \<Rightarrow>
                       (let semantic_similarity = round_to_double coverage;
                            skill_overlap_ratio = round_to_double overlap;
                            final_fit_score =
                              compute_final_score semantic_similarity skill_overlap_ratio
                                experience_score;
                            explanation_text =
                              generate_explanation semantic_similarity matched missing
                                experience_score
                        in Inr \<lparr>fit_score = final_fit_score,
                                semantic_similarity_score = py_round semantic_similarity 3,
                                matched_skills = matched,
                                missing_skills = missing,
                                experience_match_score = py_round experience_score 3,
                                explanation = explanation_text\<rparr>))))"

text \<open>
  The contract of the embedder: a batch of \<open>n \<ge> 1\<close> strings becomes an array of
  \<open>n\<close> rows of one fixed positive dimension \<open>d\<close>.
\<close>

definition embedder_contract :: "(string list \<Rightarrow> ndarray) \<Rightarrow> nat \<Rightarrow> bool" where
  "embedder_contract encode d =
     (0 < d \<and> (\<forall>texts. texts \<noteq> [] \<longrightarrow> shape (encode texts) = [length texts, d]))"

text \<open>A row permutation of an array: the same shape, the same rows in some order.\<close>

definition row_permutation_of :: "ndarray \<Rightarrow> ndarray \<Rightarrow> bool" where
  "row_permutation_of b a = (shape b = shape a \<and> mset (rows b) = mset (rows a))"

text \<open>
  For each source row, the largest cosine similarity to a target row, as a maximum
  over the set of target rows.
\<close>

definition best_matches :: "ndarray \<Rightarrow> ndarray \<Rightarrow> real list" where
  "best_matches s t =
     map (\<lambda>x. Max ((\<lambda>y. dot (normalize_row x) (normalize_row y)) ` set (rows t))) (rows s)"

text \<open>
  Two embedders for concrete runs: one meets the contract with dimension 1, the other
  breaks it by returning an array without rows.
\<close>

definition unit_encoder :: "string list \<Rightarrow> ndarray" where
  "unit_encoder texts = \<lparr>shape = [length texts, 1], elems = replicate (length texts) 1\<rparr>"

definition empty_encoder :: "string list \<Rightarrow> ndarray" where
  "empty_encoder texts = \<lparr>shape = [0, 2], elems = []\<rparr>"

section \<open>Properties of skill extraction and matching\<close>

lemma finite_RECOGNIZED_SKILLS: "finite RECOGNIZED_SKILLS"
  by (simp add: RECOGNIZED_SKILLS_def)

lemma extract_skills_subset: "extract_skills text \<subseteq> RECOGNIZED_SKILLS"
  by (auto simp: extract_skills_def Let_def)

lemma finite_extract_skills: "finite (extract_skills text)"
  using extract_skills_subset finite_RECOGNIZED_SKILLS by (rule finite_subset)

lemma extract_skills_empty_text: "extract_skills [] = {}"
  by (simp add: extract_skills_def)

lemma keep_char_normalize_text:
  assumes "c \<in> set (normalize_text text)"
  shows "keep_char c"
proof -
  have "keep_char (CHR '' '')"
    by (simp add: keep_char_def)
  with assms show ?thesis
    by (auto simp: normalize_text_def Let_def split: if_splits)
qed

lemma extract_skills_keep_char:
  assumes "skill \<in> extract_skills text" and "c \<in> set skill"
  shows "keep_char c"
proof -
  from assms(1) have "sublist skill (normalize_text text)"
    by (auto simp: extract_skills_def Let_def split: if_splits)
  then have "set skill \<subseteq> set (normalize_text text)"
    by (auto simp: sublist_def)
  with assms(2) show ?thesis
    by (auto intro: keep_char_normalize_text)
qed

text \<open>
  Claim C1. When the skills extracted from the job description are not empty,
  \<open>match_skills\<close> returns the skills common to both texts and the skills of the job
  description absent from the resume, each as an ascending list without repetition;
  together they are the required skills, they share nothing, and the overlap ratio is
  the number of matched skills over the number of required ones. When no skill is
  required, in particular for the empty job description, the result is
  \<open>([], [], 1)\<close> whatever the resume.
\<close>

theorem match_skills_correct:
  "(extract_skills jd \<noteq> {} \<longrightarrow>
      (case match_skills resume jd of (matched, missing, overlap_ratio) \<Rightarrow>
         sorted matched \<and> distinct matched \<and>
         set matched = extract_skills resume \<inter> extract_skills jd \<and>
         sorted missing \<and> distinct missing \<and>
         set missing = extract_skills jd - extract_skills resume \<and>
         set matched \<union> set missing = extract_skills jd \<and>
         set matched \<inter> set missing = {} \<and>
         overlap_ratio = real (length matched) / real (card (extract_skills jd)) \<and>
         0 \<le> overlap_ratio \<and> overlap_ratio \<le> 1)) \<and>
   (extract_skills jd = {} \<longrightarrow> match_skills resume jd = ([], [], 1)) \<and>
   match_skills resume [] = ([], [], 1)"
proof -
  let ?R = "extract_skills resume" and ?J = "extract_skills jd"
  have fin: "finite (?R \<inter> ?J)" "finite (?J - ?R)" "finite ?J"
    using finite_extract_skills by auto
  have len: "length (sorted_list_of_set (?R \<inter> ?J)) = card (?R \<inter> ?J)"
    by simp
  have le: "card (?R \<inter> ?J) \<le> card ?J"
    using fin by (simp add: card_mono)
  have pos: "?J \<noteq> {} \<Longrightarrow> 0 < card ?J"
    using fin by (simp add: card_gt_0_iff)
  have ratio: "?J \<noteq> {} \<Longrightarrow> real (card (?R \<inter> ?J)) / real (card ?J) \<le> 1"
    using le pos by (simp add: divide_le_eq_1)
  have un: "(?R \<inter> ?J) \<union> (?J - ?R) = ?J"
    by blast
  have dis: "(?R \<inter> ?J) \<inter> (?J - ?R) = {}"
    by blast
  have empty_jd: "match_skills resume [] = ([], [], 1)"
    by (simp add: match_skills_def extract_skills_empty_text)
  show ?thesis
    using fin len ratio un dis empty_jd by (simp add: match_skills_def Let_def)
qed

text \<open>
  Claim C1, at a resume naming Python and Docker and a job description that also asks
  for Kubernetes: the required skills are not empty and the three components are as
  the theorem says.
\<close>

theorem match_skills_correct_witness:
  "extract_skills ''Looking for Python, Docker, and Kubernetes expert'' \<noteq> {} \<and>
   (case match_skills ''I know Python and Docker''
           ''Looking for Python, Docker, and Kubernetes expert''
    of (matched, missing, overlap_ratio) \<Rightarrow>
      sorted matched \<and> distinct matched \<and> sorted missing \<and> distinct missing \<and>
      set matched \<union> set missing =
        extract_skills ''Looking for Python, Docker, and Kubernetes expert'' \<and>
      set matched \<inter> set missing = {} \<and>
      overlap_ratio =
        real (length matched) /
        real (card (extract_skills ''Looking for Python, Docker, and Kubernetes expert''))) \<and>
   extract_skills ''no skill'' = {} \<and>
   match_skills ''I know Python and Docker'' ''no skill'' = ([], [], 1)"
proof -
  have nonempty: "extract_skills ''Looking for Python, Docker, and Kubernetes expert'' \<noteq> {}"
    by code_simp
  have empty: "extract_skills ''no skill'' = {}"
    by code_simp
  show ?thesis
    using nonempty empty
      match_skills_correct [of "''Looking for Python, Docker, and Kubernetes expert''"
        "''I know Python and Docker''"]
      match_skills_correct [of "''no skill''" "''I know Python and Docker''"]
    by (auto split: prod.splits)
qed

text \<open>
  Claim C9. No text yields the vocabulary entries \<open>scikit-learn\<close>, \<open>node.js\<close> or
  \<open>ci/cd\<close>: every character of the normalised text is a lowercase letter, a digit,
  a plus or a space, while each of the three entries, all in the vocabulary, holds a
  hyphen, a dot or a slash.
\<close>

theorem unreachable_skills:
  "''scikit-learn'' \<notin> extract_skills text \<and>
   ''node.js'' \<notin> extract_skills text \<and>
   ''ci/cd'' \<notin> extract_skills text \<and>
   {''scikit-learn'', ''node.js'', ''ci/cd''} \<subseteq> RECOGNIZED_SKILLS \<and>
   (\<forall>c \<in> set (normalize_text text). keep_char c) \<and>
   \<not> keep_char (CHR ''-'') \<and> \<not> keep_char (CHR ''.'') \<and> \<not> keep_char (CHR ''/'')"
proof -
  have k: "\<not> keep_char (CHR ''-'')" "\<not> keep_char (CHR ''.'')" "\<not> keep_char (CHR ''/'')"
    by (simp_all add: keep_char_def)
  have a: "''scikit-learn'' \<notin> extract_skills text"
    using extract_skills_keep_char [of "''scikit-learn''" "text" "CHR ''-''"] k by auto
  have b: "''node.js'' \<notin> extract_skills text"
    using extract_skills_keep_char [of "''node.js''" "text" "CHR ''.''"] k by auto
  have c: "''ci/cd'' \<notin> extract_skills text"
    using extract_skills_keep_char [of "''ci/cd''" "text" "CHR ''/''"] k by auto
  have d: "{''scikit-learn'', ''node.js'', ''ci/cd''} \<subseteq> RECOGNIZED_SKILLS"
    by (simp add: RECOGNIZED_SKILLS_def)
  from a b c d k keep_char_normalize_text show ?thesis
    by blast
qed

text \<open>
  Claim C9, at a text that names the three entries literally: none of them is
  extracted, and the hyphen of the text, a character of its normalised form only as
  a space, is kept as a space.
\<close>

theorem unreachable_skills_witness:
  "''scikit-learn'' \<notin> extract_skills ''scikit-learn, node.js, ci/cd'' \<and>
   ''node.js'' \<notin> extract_skills ''scikit-learn, node.js, ci/cd'' \<and>
   ''ci/cd'' \<notin> extract_skills ''scikit-learn, node.js, ci/cd'' \<and>
   CHR '' '' \<in> set (normalize_text ''scikit-learn, node.js, ci/cd'') \<and>
   keep_char (CHR '' '')"
proof -
  have "CHR '' '' \<in> set (normalize_text ''scikit-learn, node.js, ci/cd'')"
    by code_simp
  then show ?thesis
    using unreachable_skills [of "''scikit-learn, node.js, ci/cd''"] by blast
qed

section \<open>Properties of the floats and of the experience score\<close>

lemma round_half_even_nonneg: "0 \<le> y \<Longrightarrow> 0 \<le> round_half_even y"
  by (auto simp: round_half_even_def Let_def)

lemma binade_zero: "binade 0 = 0"
  by (simp add: binade_def bitlen_def floorlog_def)

lemma round_to_double_nonneg:
  assumes "0 \<le> x"
  shows "fle (Fin 0) (round_to_double x)"
proof (cases "x = 0")
  case True
  then show ?thesis
    by (simp add: round_to_double_def binade_zero round_half_even_def)
next
  case False
  with assms have pos: "0 < x" by simp
  have "0 \<le> x / 2 powi q" for q
    using assms by simp
  then have "0 \<le> round_half_even (x / 2 powi q)" for q
    by (rule round_half_even_nonneg)
  then have "0 \<le> real_of_int (round_half_even (x / 2 powi q)) * 2 powi q" for q
    by simp
  with pos show ?thesis
    by (simp add: round_to_double_def Let_def)
qed

lemma py_float_nonneg: "fle (Fin 0) (py_float literal)"
  unfolding py_float_def by (rule round_to_double_nonneg) (simp add: decimal_value_def Let_def)

lemma fle_zero_cases: "fle (Fin 0) f \<longleftrightarrow> f = PInf \<or> (\<exists>v. f = Fin v \<and> 0 \<le> v)"
  by (cases f) auto

lemma py_max_list_nonneg:
  assumes "fle (Fin 0) first" and "\<forall>f \<in> set others. fle (Fin 0) f"
  shows "fle (Fin 0) (py_max_list first others)"
  using assms unfolding py_max_list_def
  by (induction others arbitrary: first) auto

lemma extract_years_nonneg: "fle (Fin 0) (extract_years_of_experience text)"
proof (cases "map py_float (findall_years 0 (lower text))")
  case Nil
  then show ?thesis by (simp add: extract_years_of_experience_def)
next
  case (Cons f fs)
  have "\<forall>g \<in> set (map py_float (findall_years 0 (lower text))). fle (Fin 0) g"
    using py_float_nonneg by auto
  with Cons have "fle (Fin 0) f" "\<forall>g \<in> set fs. fle (Fin 0) g"
    by auto
  then have "fle (Fin 0) (py_max_list f fs)"
    by (rule py_max_list_nonneg)
  with Cons show ?thesis by (simp add: extract_years_of_experience_def)
qed

lemma clamp_range: "\<exists>s. py_max (Fin 0) (py_min ratio (Fin 1)) = Fin s \<and> 0 \<le> s \<and> s \<le> 1"
  by (cases ratio) (auto simp: py_min_def py_max_def)

lemma truediv_positive:
  assumes "fle (Fin 0) b" and "\<not> fle b (Fin 0)"
  shows "\<exists>ratio. py_truediv a b = Inr ratio"
proof -
  from assms have "b = PInf \<or> (\<exists>v. b = Fin v \<and> 0 < v)"
    by (cases b) auto
  then show ?thesis
    by (cases a) auto
qed

lemma experience_score_range:
  "\<exists>s. compute_experience_score resume jd = Inr (Fin s) \<and> 0 \<le> s \<and> s \<le> 1"
proof (cases "fle (extract_years_of_experience jd) (Fin 0)")
  case True
  then show ?thesis by (simp add: compute_experience_score_def)
next
  case False
  from truediv_positive [OF extract_years_nonneg False]
  obtain ratio where "py_truediv (extract_years_of_experience resume)
      (extract_years_of_experience jd) = Inr ratio"
    by blast
  with False clamp_range [of ratio] show ?thesis
    by (auto simp: compute_experience_score_def Let_def)
qed

section \<open>Properties of year extraction\<close>


lemma char_classes:
  "\<not> py_isdigit (CHR ''.'')" "\<not> py_isdigit (CHR ''+'')" "\<not> py_isdigit (CHR ''y'')"
  "\<not> py_isspace (CHR ''+'')" "\<not> py_isspace (CHR ''y'')" "\<not> py_isspace (CHR ''.'')"
  by (simp_all add: py_isdigit_def py_isspace_def code_point_def)



lemma space_not_plus: "py_isspace c \<Longrightarrow> c \<noteq> CHR ''+''"
  using char_classes by auto







subsection \<open>The years of a text and the experience score\<close>












subsection \<open>A number of years beyond the range of the floats\<close>

lemma nines_found:
  "findall_years 0 (lower (replicate 309 (CHR ''9'') @ '' years'')) = [replicate 309 (CHR ''9'')]"
  by code_simp

lemma code_point_nine: "code_point (CHR ''9'') - 48 = 9"
  by (simp add: code_point_def)

lemma foldl_nines:
  "foldl (\<lambda>acc c. 10 * acc + (code_point c - 48)) a (replicate n (CHR ''9''))
     = a * 10 ^ n + (10 ^ n - 1)"
proof (induction n arbitrary: a)
  case 0
  show ?case by simp
next
  case (Suc n)
  have "(10 * a + 9) * 10 ^ n + (10 ^ n - 1) = a * 10 ^ Suc n + (10 ^ Suc n - 1)"
  proof -
    have "(1::nat) \<le> 10 ^ n" by simp
    then show ?thesis by (simp add: algebra_simps)
  qed
  with Suc [of "10 * a + 9"] show ?case
    by (simp add: code_point_nine)
qed

lemma digits_value_nines: "digits_value (replicate n (CHR ''9'')) = 10 ^ n - 1"
  using foldl_nines [of 0 n] by (simp add: digits_value_def)

lemma decimal_value_nines: "decimal_value (replicate n (CHR ''9'')) = 10 ^ n - 1"
proof -
  have "takeWhile (\<lambda>c. c \<noteq> CHR ''.'') (replicate n (CHR ''9'')) = replicate n (CHR ''9'')"
    by simp
  moreover have "dropWhile (\<lambda>c. c \<noteq> CHR ''.'') (replicate n (CHR ''9'')) = []"
    by simp
  moreover have "digits_value [] = 0"
    by (simp add: digits_value_def)
  moreover have "real (10 ^ n - 1) = 10 ^ n - 1"
    by (simp add: of_nat_diff)
  ultimately show ?thesis
    by (simp add: decimal_value_def Let_def digits_value_nines)
qed

lemma overflow_309: "round_to_double (10 ^ 309 - 1) = PInf"
  by code_simp

lemma nines_float: "py_float (replicate 309 (CHR ''9'')) = PInf"
  by (simp only: py_float_def decimal_value_nines overflow_309)

text \<open>
  Claim C8. A resume and a job description that both state 309 nines as the number of
  years: the required years are positive, the candidate's years reach them, and the
  score is 0, not 1. Both numbers are converted to the infinity, their quotient is
  a NaN, \<^verbatim>\<open>min(nan, 1.0)\<close> is the NaN and \<^verbatim>\<open>max(0.0, nan)\<close> is 0.
\<close>

theorem experience_score_overflow:
  "extract_years_of_experience (replicate 309 (CHR ''9'') @ '' years'') = PInf \<and>
   compute_experience_score (replicate 309 (CHR ''9'') @ '' years'')
     (replicate 309 (CHR ''9'') @ '' years'') = Inr (Fin 0)"
proof -
  have years: "extract_years_of_experience (replicate 309 (CHR ''9'') @ '' years'') = PInf"
    by (simp add: extract_years_of_experience_def Let_def nines_found nines_float py_max_list_def)
  then show ?thesis
    by (simp add: compute_experience_score_def Let_def py_min_def py_max_def)
qed

section \<open>Properties of the sentence splitter\<close>

lemma set_strip: "set (strip s) \<subseteq> set s"
  by (auto simp: strip_def dest!: set_dropWhileD)

lemma strip_prefix_of_dropWhile:
  "\<exists>ws. dropWhile py_isspace s = strip s @ ws"
proof -
  let ?a = "dropWhile py_isspace s"
  have "strip s @ rev (takeWhile py_isspace (rev ?a))
      = rev (takeWhile py_isspace (rev ?a) @ dropWhile py_isspace (rev ?a))"
    by (simp only: strip_def rev_append)
  also have "\<dots> = ?a"
    by (simp only: takeWhile_dropWhile_id rev_rev_ident)
  finally have "?a = strip s @ rev (takeWhile py_isspace (rev ?a))"
    by (rule sym)
  then show ?thesis ..
qed

lemma strip_hd: "strip s \<noteq> [] \<Longrightarrow> \<not> py_isspace (hd (strip s))"
proof -
  assume ne: "strip s \<noteq> []"
  obtain ws where eq: "dropWhile py_isspace s = strip s @ ws"
    using strip_prefix_of_dropWhile by blast
  with ne have "dropWhile py_isspace s \<noteq> []" by simp
  then have "\<not> py_isspace (hd (dropWhile py_isspace s))"
    by (rule hd_dropWhile)
  with eq ne show ?thesis by simp
qed

lemma strip_last: "strip s \<noteq> [] \<Longrightarrow> \<not> py_isspace (last (strip s))"
proof -
  let ?b = "dropWhile py_isspace (rev (dropWhile py_isspace s))"
  assume "strip s \<noteq> []"
  then have "?b \<noteq> []" by (simp add: strip_def)
  then have "\<not> py_isspace (hd ?b)" by (rule hd_dropWhile)
  moreover have "last (strip s) = hd ?b"
    using \<open>?b \<noteq> []\<close> by (simp add: strip_def last_rev)
  ultimately show ?thesis by simp
qed

lemma strip_idem: "strip (strip s) = strip s"
proof (cases "strip s = []")
  case True
  have "strip [] = []"
    by (simp add: strip_def)
  with True show ?thesis
    by simp
next
  case False
  have front: "dropWhile py_isspace (strip s) = strip s"
    using strip_hd [OF False] by (simp add: dropWhile_eq_self_iff)
  have "hd (rev (strip s)) = last (strip s)"
    using False by (simp add: hd_rev)
  then have rear: "dropWhile py_isspace (rev (strip s)) = rev (strip s)"
    using strip_last [OF False] by (simp add: dropWhile_eq_self_iff)
  show ?thesis
    by (subst (1) strip_def) (simp only: front rear rev_rev_ident)
qed

lemma split_on_nonempty: "split_on sep s \<noteq> []"
  by (induction s) (auto split: list.splits)

lemma split_on_no_sep: "piece \<in> set (split_on sep s) \<Longrightarrow> sep \<notin> set piece"
  by (induction s arbitrary: piece) (auto split: list.splits if_splits)

lemma split_on_subset: "piece \<in> set (split_on sep s) \<Longrightarrow> set piece \<subseteq> set s"
proof (induction s arbitrary: piece)
  case Nil
  then show ?case by simp
next
  case (Cons c cs)
  obtain p ps where ps: "split_on sep cs = p # ps"
    using split_on_nonempty [of sep cs] by (cases "split_on sep cs") auto
  have ih: "set q \<subseteq> set cs" if "q = p \<or> q \<in> set ps" for q
    using Cons.IH [of q] that ps by auto
  show ?case
  proof (cases "c = sep")
    case True
    with Cons.prems ps have "piece = [] \<or> piece = p \<or> piece \<in> set ps"
      by auto
    with ih show ?thesis by auto
  next
    case False
    with Cons.prems ps have "piece = c # p \<or> piece \<in> set ps"
      by auto
    with ih [of p] ih [of piece] show ?thesis by auto
  qed
qed

lemma join_split_on: "join [sep] (split_on sep s) = s"
proof (induction s)
  case Nil
  then show ?case by simp
next
  case (Cons c cs)
  obtain p ps where ps: "split_on sep cs = p # ps"
    using split_on_nonempty [of sep cs] by (cases "split_on sep cs") auto
  with Cons show ?case
    by (cases ps) auto
qed

lemma replace_char_absent: "old \<noteq> new \<Longrightarrow> old \<notin> set (replace_char old new s)"
  by (auto simp: replace_char_def)

lemma strip_eq_Nil_iff: "strip s = [] \<longleftrightarrow> (\<forall>c \<in> set s. py_isspace c)"
proof
  assume "strip s = []"
  then have all: "\<forall>c \<in> set (dropWhile py_isspace s). py_isspace c"
    by (simp add: strip_def)
  have "dropWhile py_isspace s = []"
  proof (rule ccontr)
    assume ne: "dropWhile py_isspace s \<noteq> []"
    then have "\<not> py_isspace (hd (dropWhile py_isspace s))"
      by (rule hd_dropWhile)
    moreover from ne have "hd (dropWhile py_isspace s) \<in> set (dropWhile py_isspace s)"
      by simp
    ultimately show False using all by blast
  qed
  then show "\<forall>c \<in> set s. py_isspace c"
    by simp
next
  assume "\<forall>c \<in> set s. py_isspace c"
  then have dropped: "dropWhile py_isspace s = []"
    by simp
  show "strip s = []"
    unfolding strip_def dropped by simp
qed

text \<open>
  Claim C6, amended. The splitter turns newlines into spaces, splits at every dot,
  trims the pieces and drops the blank ones. A blank text yields the batch holding the
  empty string. A text that is not blank but has only blank pieces yields the batch
  holding the text itself, unchanged and so possibly untrimmed. In every other case
  the batch is the list of trimmed pieces, each non-empty, trimmed, and free of dots
  and newlines. Splitting at the dot loses nothing: joining the pieces with dots gives
  the text back, and no piece holds a dot.
\<close>

theorem tokenize_amended:
  "(text = [] \<or> strip text = [] \<longrightarrow> tokenize_into_sentences text = [[]]) \<and>
   (strip text \<noteq> [] \<longrightarrow>
      (let fragments = filter (\<lambda>s. s \<noteq> [])
             (map strip (split_on (CHR ''.'') (replace_char (CHR 0x0A) (CHR '' '') text)))
       in (fragments = [] \<longrightarrow> tokenize_into_sentences text = [text]) \<and>
          (fragments \<noteq> [] \<longrightarrow> tokenize_into_sentences text = fragments \<and>
             (\<forall>s \<in> set (tokenize_into_sentences text).
                s \<noteq> [] \<and> strip s = s \<and> CHR ''.'' \<notin> set s \<and> CHR 0x0A \<notin> set s)))) \<and>
   tokenize_into_sentences text \<noteq> [] \<and>
   join ''.'' (split_on (CHR ''.'') text) = text \<and>
   (\<forall>piece \<in> set (split_on (CHR ''.'') text). CHR ''.'' \<notin> set piece)"
proof -
  let ?pieces = "split_on (CHR ''.'') (replace_char (CHR 0x0A) (CHR '' '') text)"
  let ?fragments = "filter (\<lambda>s. s \<noteq> []) (map strip ?pieces)"
  have same: "map strip (filter (\<lambda>s. strip s \<noteq> []) ?pieces) = ?fragments"
    by (simp add: filter_map comp_def)
  have blank: "tokenize_into_sentences text = [[]]" if "text = [] \<or> strip text = []"
    using that by (auto simp: tokenize_into_sentences_def)
  have nonblank: "tokenize_into_sentences text = (if ?fragments \<noteq> [] then ?fragments else [text])"
    if "strip text \<noteq> []"
  proof -
    from that have "text \<noteq> []" by (auto simp: strip_def)
    with that show ?thesis
      unfolding tokenize_into_sentences_def Let_def same by simp
  qed
  have elems: "s \<noteq> [] \<and> strip s = s \<and> CHR ''.'' \<notin> set s \<and> CHR 0x0A \<notin> set s"
    if "s \<in> set ?fragments" for s
  proof -
    from that obtain piece where piece: "piece \<in> set ?pieces" "s = strip piece" "s \<noteq> []"
      by auto
    have dot: "CHR ''.'' \<notin> set piece"
      using piece(1) by (rule split_on_no_sep)
    have "CHR 0x0A \<notin> set (replace_char (CHR 0x0A) (CHR '' '') text)"
      by (rule replace_char_absent) simp
    with split_on_subset [OF piece(1)] have nl: "CHR 0x0A \<notin> set piece"
      by blast
    have sub: "set s \<subseteq> set piece"
      unfolding piece(2) by (rule set_strip)
    have "strip s = s"
      unfolding piece(2) by (rule strip_idem)
    with piece(3) dot nl sub show ?thesis
      by blast
  qed
  have ne: "tokenize_into_sentences text \<noteq> []"
  proof (cases "strip text = []")
    case True
    then show ?thesis using blank by simp
  next
    case False
    then show ?thesis using nonblank by simp
  qed
  have inv: "join ''.'' (split_on (CHR ''.'') text) = text"
    by (rule join_split_on)
  have nosep: "\<forall>piece \<in> set (split_on (CHR ''.'') text). CHR ''.'' \<notin> set piece"
    using split_on_no_sep by blast
  have main: "(?fragments = [] \<longrightarrow> tokenize_into_sentences text = [text]) \<and>
          (?fragments \<noteq> [] \<longrightarrow> tokenize_into_sentences text = ?fragments \<and>
             (\<forall>s \<in> set (tokenize_into_sentences text).
                s \<noteq> [] \<and> strip s = s \<and> CHR ''.'' \<notin> set s \<and> CHR 0x0A \<notin> set s))"
    if "strip text \<noteq> []"
  proof (cases "?fragments = []")
    case True
    then show ?thesis using nonblank [OF that] by simp
  next
    case False
    then have eq: "tokenize_into_sentences text = ?fragments"
      using nonblank [OF that] by simp
    show ?thesis
      unfolding eq using False elems by blast
  qed
  show ?thesis
    unfolding Let_def using blank main ne inv nosep by blast
qed

text \<open>
  Claim C6, amended, at a text of two sentences, at a blank text and at a text whose
  pieces are all blank.
\<close>

theorem tokenize_amended_witness:
  "strip ''Hello world. This is a test. '' \<noteq> [] \<and>
   tokenize_into_sentences ''Hello world. This is a test. '' = [''Hello world'', ''This is a test''] \<and>
   strip ''This is a test'' = ''This is a test'' \<and>
   strip ''   '' = [] \<and> tokenize_into_sentences ''   '' = [[]] \<and>
   strip '' .'' \<noteq> [] \<and> tokenize_into_sentences '' .'' = ['' .'']"
proof -
  let ?T = "''Hello world. This is a test. ''"
  have a: "strip ?T \<noteq> []" by code_simp
  have b: "filter (\<lambda>s. s \<noteq> [])
             (map strip (split_on (CHR ''.'') (replace_char (CHR 0x0A) (CHR '' '') ?T)))
           = [''Hello world'', ''This is a test'']"
    by code_simp
  have c: "strip ''   '' = []" by code_simp
  have d: "strip '' .'' \<noteq> []" by code_simp
  have e: "filter (\<lambda>s. s \<noteq> [])
             (map strip (split_on (CHR ''.'') (replace_char (CHR 0x0A) (CHR '' '') '' .''))) = []"
    by code_simp
  have tok: "tokenize_into_sentences ?T = [''Hello world'', ''This is a test'']"
    and trimmed: "\<forall>s \<in> set (tokenize_into_sentences ?T). s \<noteq> [] \<and> strip s = s \<and> CHR ''.'' \<notin> set s \<and> CHR 0x0A \<notin> set s"
    using tokenize_amended [of ?T] a unfolding Let_def b by simp_all
  have t2: "strip ''This is a test'' = ''This is a test''"
    using trimmed unfolding tok by simp
  have blank: "tokenize_into_sentences ''   '' = [[]]"
    using tokenize_amended [of "''   ''"] c by blast
  have fallback: "tokenize_into_sentences '' .'' = ['' .'']"
    using tokenize_amended [of "'' .''"] d unfolding Let_def e by simp
  from a tok t2 c blank d fallback show ?thesis
    by blast
qed

text \<open>
  Claim C6 as stated fails: for a space followed by a dot, not blank but with only
  blank pieces, the batch holds the text with its leading space, not the stripped
  text, and its element is not trimmed.
\<close>

theorem tokenize_fallback_counterexample:
  "strip '' .'' \<noteq> [] \<and>
   filter (\<lambda>s. strip s \<noteq> [])
     (split_on (CHR ''.'') (replace_char (CHR 0x0A) (CHR '' '') '' .'')) = [] \<and>
   tokenize_into_sentences '' .'' = ['' .''] \<and>
   tokenize_into_sentences '' .'' \<noteq> [strip '' .''] \<and>
   strip '' .'' \<noteq> '' .''"
  by code_simp

section \<open>Properties of the coverage score and of the pipeline\<close>

text \<open>
  Between rows of non-zero norm the entry of the similarity matrix is the cosine of
  the angle: the inner product over the product of the norms.
\<close>

lemma dot_scale: "dot (map (\<lambda>a. a / n) x) (map (\<lambda>b. b / m) y) = dot x y / (n * m)"
proof (induction x arbitrary: y)
  case Nil
  show ?case by (simp add: dot_def)
next
  case (Cons a x)
  show ?case
  proof (cases y)
    case Nil
    then show ?thesis by (simp add: dot_def)
  next
    case (Cons b y')
    have "dot (map (\<lambda>a. a / n) x) (map (\<lambda>b. b / m) y') = dot x y' / (n * m)"
      by (rule Cons.IH)
    then show ?thesis
      unfolding Cons by (simp add: dot_def add_divide_distrib)
  qed
qed

lemma cosine_formula:
  assumes "l2_norm x \<noteq> 0" and "l2_norm y \<noteq> 0"
  shows "dot (normalize_row x) (normalize_row y) = dot x y / (l2_norm x * l2_norm y)"
  using assms by (simp add: normalize_row_def Let_def dot_scale)

lemma valid_iff:
  "validate_embeddings s t = Inr () \<longleftrightarrow>
     size_of s \<noteq> 0 \<and> size_of t \<noteq> 0 \<and> ndim s = 2 \<and> ndim t = 2 \<and> shape s ! 1 = shape t ! 1"
  by (simp add: validate_embeddings_def Let_def)

lemma invalid_iff:
  "(\<exists>e. validate_embeddings s t = Inl e) \<longleftrightarrow>
     size_of s = 0 \<or> size_of t = 0 \<or> ndim s \<noteq> 2 \<or> ndim t \<noteq> 2 \<or> shape s ! 1 \<noteq> shape t ! 1"
  by (simp add: validate_embeddings_def Let_def)

lemma length_rows: "length (rows a) = shape a ! 0"
  by (simp add: rows_def Let_def)

lemma rows_nonempty:
  assumes "size_of a \<noteq> 0" and "ndim a = 2"
  shows "rows a \<noteq> []"
proof -
  from assms(2) obtain n d where nd: "shape a = [n, d]"
    by (cases "shape a"; cases "tl (shape a)"; cases "tl (tl (shape a))") (auto simp: ndim_def)
  with assms(1) have "0 < n"
    by (simp add: size_of_def)
  with nd have "length (rows a) \<noteq> 0"
    by (simp add: length_rows)
  then show ?thesis by auto
qed

lemma amax_Max: "xs \<noteq> [] \<Longrightarrow> amax xs = Inr (Max (set xs))"
proof (cases xs)
  case Nil
  assume "xs \<noteq> []"
  with Nil show ?thesis by simp
next
  case (Cons a list)
  have "fold max list a = Max (set (a # list))"
    by (rule Max.set_eq_fold [symmetric])
  with Cons show ?thesis by simp
qed

lemma amax_rows_Max:
  assumes "ys \<noteq> []"
  shows "amax_rows (map (\<lambda>x. map (f x) ys) xs) = Inr (map (\<lambda>x. Max (f x ` set ys)) xs)"
proof (induction xs)
  case Nil
  show ?case by simp
next
  case (Cons x xs)
  have "amax (map (f x) ys) = Inr (Max (f x ` set ys))"
    using assms by (simp add: amax_Max)
  with Cons show ?case by simp
qed

lemma coverage_valid:
  assumes "validate_embeddings s t = Inr ()"
  shows "average_max_cosine_similarity s t = Inr (clip (mean (best_matches s t)) 0 1)"
proof -
  from assms have "rows t \<noteq> []"
    by (simp add: valid_iff rows_nonempty)
  then have "amax_rows (cosine_similarity s t) = Inr (best_matches s t)"
    unfolding cosine_similarity_def best_matches_def by (rule amax_rows_Max)
  with assms show ?thesis
    by (simp add: average_max_cosine_similarity_def)
qed

lemma coverage_invalid:
  assumes "validate_embeddings s t = Inl e"
  shows "average_max_cosine_similarity s t = Inl e"
  using assms by (simp add: average_max_cosine_similarity_def)

lemma clip_bounds: "0 \<le> clip x 0 1 \<and> clip x 0 1 \<le> 1"
  by (simp add: clip_def)

lemma validate_cases: "(\<exists>e. validate_embeddings s t = Inl e) \<or> validate_embeddings s t = Inr ()"
  by (cases "validate_embeddings s t") auto

text \<open>
  Claim C5. For valid arrays (with elements, two-dimensional, rows of equal length)
  the coverage score is the same for every reordering of the target's rows, and it
  is a value between 0 and 1.
\<close>

theorem coverage_permutation_invariant:
  assumes "size_of s \<noteq> 0" "size_of t \<noteq> 0" "ndim s = 2" "ndim t = 2"
    "shape s ! 1 = shape t ! 1" "row_permutation_of t' t"
  shows "average_max_cosine_similarity s t' = average_max_cosine_similarity s t \<and>
    (\<exists>v. average_max_cosine_similarity s t = Inr v \<and> 0 \<le> v \<and> v \<le> 1)"
proof -
  from assms(6) have sh: "shape t' = shape t" and ms: "mset (rows t') = mset (rows t)"
    by (simp_all add: row_permutation_of_def)
  from ms have "set_mset (mset (rows t')) = set_mset (mset (rows t))"
    by simp
  then have same_rows: "set (rows t') = set (rows t)"
    by simp
  have v: "validate_embeddings s t = Inr ()"
    using assms by (simp add: valid_iff)
  have v': "validate_embeddings s t' = Inr ()"
    using assms sh by (simp add: valid_iff size_of_def ndim_def)
  have "best_matches s t' = best_matches s t"
    by (simp add: best_matches_def same_rows)
  then have "average_max_cosine_similarity s t' = average_max_cosine_similarity s t"
    by (simp add: coverage_valid [OF v] coverage_valid [OF v'])
  then show ?thesis
    using coverage_valid [OF v] clip_bounds by blast
qed

text \<open>
  Claim C5, at a target of two unit rows and the same rows swapped.
\<close>

theorem coverage_permutation_invariant_witness:
  "row_permutation_of \<lparr>shape = [2, 2], elems = [0, 1, 1, 0]\<rparr>
     \<lparr>shape = [2, 2], elems = [1, 0, 0, 1]\<rparr> \<and>
   average_max_cosine_similarity \<lparr>shape = [1, 2], elems = [1, 0]\<rparr>
     \<lparr>shape = [2, 2], elems = [0, 1, 1, 0]\<rparr>
   = average_max_cosine_similarity \<lparr>shape = [1, 2], elems = [1, 0]\<rparr>
       \<lparr>shape = [2, 2], elems = [1, 0, 0, 1]\<rparr> \<and>
   (\<exists>v. average_max_cosine_similarity \<lparr>shape = [1, 2], elems = [1, 0]\<rparr>
       \<lparr>shape = [2, 2], elems = [1, 0, 0, 1]\<rparr> = Inr v \<and> 0 \<le> v \<and> v \<le> 1)"
proof -
  let ?S = "\<lparr>shape = [1, 2], elems = [1, 0]\<rparr>"
  let ?T = "\<lparr>shape = [2, 2], elems = [1, 0, 0, 1]\<rparr>"
  let ?T' = "\<lparr>shape = [2, 2], elems = [0, 1, 1, 0]\<rparr>"
  have a: "size_of ?S \<noteq> 0" and b: "size_of ?T \<noteq> 0" and c: "ndim ?S = 2" and d: "ndim ?T = 2"
    and e: "shape ?S ! 1 = shape ?T ! 1"
    by (simp_all add: size_of_def ndim_def)
  have perm: "row_permutation_of ?T' ?T"
    by (simp add: row_permutation_of_def rows_def upt_rec)
  from perm coverage_permutation_invariant [OF a b c d e perm] show ?thesis
    by blast
qed

text \<open>
  Claim C10. The splitter never returns an empty batch; hence, with an embedder that
  meets its contract, \<open>evaluate\<close> returns a result for every pair of texts and
  raises no error.
\<close>

theorem evaluate_never_invalid:
  assumes "embedder_contract encode d"
  shows "tokenize_into_sentences resume \<noteq> [] \<and> tokenize_into_sentences jd \<noteq> [] \<and>
    (\<exists>result. evaluate encode resume jd = Inr result)"
proof -
  have ne: "tokenize_into_sentences doc \<noteq> []" for doc
    by (simp add: tokenize_into_sentences_def Let_def)
  have sh: "shape (encode (tokenize_into_sentences doc))
      = [length (tokenize_into_sentences doc), d]" for doc
    using assms ne by (simp add: embedder_contract_def)
  have pos: "0 < d"
    using assms by (simp add: embedder_contract_def)
  have "validate_embeddings (encode (tokenize_into_sentences jd))
      (encode (tokenize_into_sentences resume)) = Inr ()"
    using ne pos by (simp add: valid_iff size_of_def ndim_def sh)
  then obtain v where "average_max_cosine_similarity (encode (tokenize_into_sentences jd))
      (encode (tokenize_into_sentences resume)) = Inr v"
    using coverage_valid by blast
  moreover obtain score where "compute_experience_score resume jd = Inr score"
    using experience_score_range by blast
  ultimately have "\<exists>result. evaluate encode resume jd = Inr result"
    by (simp add: evaluate_def Let_def split: prod.splits)
  with ne show ?thesis by blast
qed

text \<open>
  Claim C10, at the embedder of dimension 1 and two short texts.
\<close>

theorem evaluate_never_invalid_witness:
  "embedder_contract unit_encoder 1 \<and>
   tokenize_into_sentences ''Python developer. 3 years.'' \<noteq> [] \<and>
   (\<exists>result. evaluate unit_encoder ''Python developer. 3 years.''
      ''Looking for Python. 5+ years.'' = Inr result)"
proof -
  have contract: "embedder_contract unit_encoder 1"
    by (simp add: embedder_contract_def unit_encoder_def)
  from contract evaluate_never_invalid [OF contract, of "''Python developer. 3 years.''"
      "''Looking for Python. 5+ years.''"]
  show ?thesis
    by blast
qed

section \<open>The empty resume\<close>

lemma lower_char_space: "py_isspace c \<Longrightarrow> lower_char c = c"
  by (auto simp: py_isspace_def lower_char_def Let_def)

lemma mention_normalized:
  assumes "sublist ''kubernetes'' (lower jd)"
  shows "sublist ''kubernetes'' (normalize_text jd)"
proof -
  let ?g = "\<lambda>c. if keep_char c then c else CHR '' ''"
  from assms have "sublist (map ?g ''kubernetes'') (map ?g (lower jd))"
    by (rule map_mono_sublist)
  moreover have "map ?g ''kubernetes'' = ''kubernetes''"
    by (simp add: keep_char_def)
  ultimately show ?thesis
    by (simp add: normalize_text_def Let_def)
qed

lemma mention_nonblank:
  assumes "sublist ''kubernetes'' (normalize_text jd)"
  shows "jd \<noteq> [] \<and> strip jd \<noteq> []"
proof -
  from assms have "set ''kubernetes'' \<subseteq> set (normalize_text jd)"
    by (auto simp: sublist_def)
  then have "CHR ''k'' \<in> set (normalize_text jd)"
    by simp
  then obtain c where c: "c \<in> set jd"
    "(if keep_char (lower_char c) then lower_char c else CHR '' '') = CHR ''k''"
    by (auto simp: normalize_text_def lower_def Let_def)
  then have lc: "lower_char c = CHR ''k''"
    by (auto split: if_splits)
  have "\<not> py_isspace (CHR ''k'')"
    by (simp add: py_isspace_def code_point_def)
  with lc lower_char_space [of c] have "\<not> py_isspace c"
    by auto
  with c(1) show ?thesis
    by (auto simp: strip_eq_Nil_iff)
qed

text \<open>
  Whatever job description names Kubernetes, in any letter case, the one-letter
  vocabulary entry \<open>r\<close> is extracted from it as well, being a substring of the word:
  with the empty resume the missing skills are never \<open>kubernetes\<close> alone.
\<close>

lemma kubernetes_brings_r:
  assumes "sublist ''kubernetes'' (lower jd)"
  shows "''r'' \<in> set (fst (snd (match_skills [] jd))) \<and>
    ''kubernetes'' \<in> set (fst (snd (match_skills [] jd))) \<and>
    fst (snd (match_skills [] jd)) \<noteq> [''kubernetes'']"
proof -
  have normalized: "sublist ''kubernetes'' (normalize_text jd)"
    using assms by (rule mention_normalized)
  have "sublist ''r'' ''kubernetes''"
    by code_simp
  with normalized have r_sub: "sublist ''r'' (normalize_text jd)"
    using sublist_order.order_trans by blast
  have vocab: "''kubernetes'' \<in> RECOGNIZED_SKILLS" "''r'' \<in> RECOGNIZED_SKILLS"
    by (simp_all add: RECOGNIZED_SKILLS_def)
  from mention_nonblank [OF normalized] vocab normalized r_sub
  have found: "''kubernetes'' \<in> extract_skills jd" "''r'' \<in> extract_skills jd"
    by (simp_all add: extract_skills_def Let_def)
  then have ne: "extract_skills jd \<noteq> {}"
    by blast
  have ms: "match_skills [] jd = ([], sorted_list_of_set (extract_skills jd), 0)"
    using ne by (simp add: match_skills_def Let_def extract_skills_empty_text)
  have members: "set (fst (snd (match_skills [] jd))) = extract_skills jd"
    unfolding ms using finite_extract_skills by simp
  have "''r'' \<notin> set [''kubernetes'']"
    by simp
  with found members show ?thesis
    by metis
qed

text \<open>
  Claim C7. For the empty resume and the job description \<open>kubernetes\<close> the code
  reports two missing skills, \<open>kubernetes\<close> and \<open>r\<close>, where the claim expects
  \<open>kubernetes\<close> alone.
\<close>

theorem empty_resume_missing_skills:
  "match_skills [] ''kubernetes'' = ([], [''kubernetes'', ''r''], 0) \<and>
   fst (snd (match_skills [] ''kubernetes'')) \<noteq> [''kubernetes''] \<and>
   extract_skills ''Expert in basket weaving'' = {''r''}"
  by code_simp

end
